theory Spec2Isabelle
  imports Complex_Main "HOL-Library.Sublist"
begin

section \<open>JavaScript values\<close>

text \<open>
  Numbers are the rationals together with the two infinities and NaN. Rounding to a
  double happens where a number is produced (JSON parsing, \<open>parseFloat\<close>), never in a
  comparison, so comparisons are exact on this type.
\<close>

datatype jsnum = NaN | NegInf | Fin rat | PosInf



datatype jsval =
    JUndefined
  | JNull
  | JBool bool
  | JNum jsnum
  | JStr string
  | JArr "jsval list"
  | JObj "(string \<times> jsval) list"

text \<open>
  A string value is the list of its code units, so \<open>length\<close> is the \<open>length\<close>
  property of the string; only code units below 256 occur in this model.
\<close>

text \<open>Truthiness, as \<open>!x\<close> and \<open>x || y\<close> test it.\<close>

fun truthy :: "jsval \<Rightarrow> bool" where
  "truthy JUndefined = False"
| "truthy JNull = False"
| "truthy (JBool b) = b"
| "truthy (JNum n) = (n \<noteq> NaN \<and> n \<noteq> Fin 0)"
| "truthy (JStr s) = (s \<noteq> [])"
| "truthy (JArr _) = True"
| "truthy (JObj _) = True"

text \<open>
  The process environment. \<open>process.env.X || d\<close> yields \<open>d\<close> when the variable is
  unset or empty.
\<close>

type_synonym env = "string \<rightharpoonup> string"

definition env_or :: "env \<Rightarrow> string \<Rightarrow> string \<Rightarrow> string" where
  "env_or e k d = (case e k of None \<Rightarrow> d | Some v \<Rightarrow> if v = [] then d else v)"


section \<open>utils/auth: tokens and middleware\<close>

subsection \<open>The jsonwebtoken package, symbolically\<close>

text \<open>
  The claims the repository puts into a token, and what \<open>jwt.verify\<close> gives back:
  the same claims with the issue time and the expiry, in seconds.
\<close>

record claims =
  userId :: jsval
  username :: jsval
  role :: jsval

record user = claims +
  iat :: "int option"
  exp :: "int option"

text \<open>
  A signature is represented by the key and the content it was computed over, so a
  signature verifies exactly when both agree with the key and content at hand. A token
  string is either a well-formed JWT (content and signature) or any other string.
\<close>

datatype mac = HS256 string user

datatype token = Jwt user mac | Str string

datatype jwt_error = BadExpiresIn | JsonWebTokenError | TokenExpiredError

text \<open>The message of the error \<open>jwt.sign\<close> throws for an \<open>expiresIn\<close> that is no time span.\<close>

definition bad_expiresIn_message :: string where
  "bad_expiresIn_message =
     CHR 0x22 # ''expiresIn'' @ CHR 0x22 #
     '' should be a number of seconds or string representing a timespan eg: '' @
     CHR 0x22 # ''1d'' @ CHR 0x22 # '', '' @ CHR 0x22 # ''20h'' @ CHR 0x22 # '', 60''"

text \<open>
  \<open>jwt.sign(payload, secret, { expiresIn })\<close> with a string \<open>expiresIn\<close>: the string is
  handed to the \<open>ms\<close> package (a parameter here: the span in milliseconds, or nothing
  when the string is no time span), and the expiry is \<open>floor(iat + ms / 1000)\<close>.
\<close>

definition stamp :: "claims \<Rightarrow> int \<Rightarrow> int \<Rightarrow> user" where
  "stamp payload issued expires =
     \<lparr> userId = userId payload, username = username payload, role = role payload,
       iat = Some issued, exp = Some expires \<rparr>"

definition signed :: "string \<Rightarrow> user \<Rightarrow> token" where
  "signed secret content = Jwt content (HS256 secret content)"

definition jwt_sign ::
  "(string \<Rightarrow> rat option) \<Rightarrow> claims \<Rightarrow> string \<Rightarrow> string \<Rightarrow> int \<Rightarrow> jwt_error + token" where
  "jwt_sign ms payload secret expiresIn now =
     (case ms expiresIn of
        None \<Rightarrow> Inl BadExpiresIn
      | Some m \<Rightarrow> Inr (signed secret (stamp payload now (now + \<lfloor>m / 1000\<rfloor>))))"

text \<open>
  \<open>jwt.verify(token, secret)\<close>: the token must be a JWT, its signature must be the one
  the secret gives for its content, and the clock must not have reached \<open>exp\<close>.
\<close>

definition jwt_verify :: "token \<Rightarrow> string \<Rightarrow> int \<Rightarrow> jwt_error + user" where
  "jwt_verify t secret now =
     (case t of
        Str _ \<Rightarrow> Inl JsonWebTokenError
      | Jwt content sig \<Rightarrow>
          if sig \<noteq> HS256 secret content then Inl JsonWebTokenError
          else (case exp content of
                  None \<Rightarrow> Inr content
                | Some e \<Rightarrow> if e \<le> now then Inl TokenExpiredError else Inr content))"

subsection \<open>Module constants\<close>

definition JWT_SECRET :: "env \<Rightarrow> string" where
  "JWT_SECRET e = env_or e ''JWT_SECRET'' ''your-super-secret-jwt-key-change-this-in-production''"

definition JWT_EXPIRES_IN :: "env \<Rightarrow> string" where
  "JWT_EXPIRES_IN e = env_or e ''JWT_EXPIRES_IN'' ''24h''"

definition JWT_REFRESH_EXPIRES_IN :: "env \<Rightarrow> string" where
  "JWT_REFRESH_EXPIRES_IN e = env_or e ''JWT_REFRESH_EXPIRES_IN'' ''7d''"

subsection \<open>Issuing and verifying\<close>

text \<open>Both issuing functions take the payload and nothing else.\<close>

definition generateAccessToken ::
  "(string \<Rightarrow> rat option) \<Rightarrow> env \<Rightarrow> int \<Rightarrow> claims \<Rightarrow> jwt_error + token" where
  "generateAccessToken ms e now payload =
     jwt_sign ms payload (JWT_SECRET e) (JWT_EXPIRES_IN e) now"

definition generateRefreshToken ::
  "(string \<Rightarrow> rat option) \<Rightarrow> env \<Rightarrow> int \<Rightarrow> claims \<Rightarrow> jwt_error + token" where
  "generateRefreshToken ms e now payload =
     jwt_sign ms payload (JWT_SECRET e) (JWT_REFRESH_EXPIRES_IN e) now"

text \<open>
  A call \<open>generateAccessToken(payload, x, ...)\<close> with more arguments than the function
  has parameters: the further arguments are bound to nothing.
\<close>

definition generateAccessToken_call ::
  "(string \<Rightarrow> rat option) \<Rightarrow> env \<Rightarrow> int \<Rightarrow> claims \<Rightarrow> jsval list \<Rightarrow> jwt_error + token" where
  "generateAccessToken_call ms e now payload further = generateAccessToken ms e now payload"

text \<open>\<open>verifyToken\<close> replaces every failure by one error message.\<close>

definition verifyToken :: "env \<Rightarrow> int \<Rightarrow> token \<Rightarrow> string + user" where
  "verifyToken e now t =
     (case jwt_verify t (JWT_SECRET e) now of
        Inl _ \<Rightarrow> Inl ''Invalid or expired token''
      | Inr decoded \<Rightarrow> Inr decoded)"

subsection \<open>Requests and responses\<close>

text \<open>
  The Authorization header is kept as the pieces \<open>split(" ")\<close> cuts it into (a header
  that is the empty string has the single piece \<open>Str []\<close>). \<open>refreshToken\<close> is the field
  of that name in the request body, \<open>cookie_refreshToken\<close> the cookie, and \<open>req_user\<close>
  is \<open>req.user\<close>.
\<close>

record request =
  authorization :: "token list option"
  refreshToken :: "token option"
  cookie_refreshToken :: "token option"
  req_user :: "user option"

text \<open>
  A response is a status with the object handed to \<open>res.json\<close>. The one response that
  carries a token, the successful refresh (status 200, \<open>success: true\<close>,
  \<open>data: { accessToken, user }\<close>), has a constructor of its own.
\<close>

datatype response = Reply nat jsval | Refreshed token claims

datatype outcome = Respond response | Next request

definition failure :: "string \<Rightarrow> jsval" where
  "failure m = JObj [(''success'', JBool False), (''message'', JStr m)]"

definition failure_with :: "string \<Rightarrow> string \<Rightarrow> jsval" where
  "failure_with m err =
     JObj [(''success'', JBool False), (''message'', JStr m), (''error'', JStr err)]"

fun falsy_token :: "token \<Rightarrow> bool" where
  "falsy_token (Str s) = (s = [])"
| "falsy_token (Jwt _ _) = False"

text \<open>\<open>authHeader && authHeader.split(" ")[1]\<close>, with \<open>None\<close> for a falsy result.\<close>

definition bearer_token :: "request \<Rightarrow> token option" where
  "bearer_token req =
     (case authorization req of
        None \<Rightarrow> None
      | Some pieces \<Rightarrow>
          if pieces = [Str []] then None
          else (case pieces of
                  _ # t # _ \<Rightarrow> if falsy_token t then None else Some t
                | _ \<Rightarrow> None))"

definition authenticateToken :: "env \<Rightarrow> int \<Rightarrow> request \<Rightarrow> outcome" where
  "authenticateToken e now req =
     (case bearer_token req of
        None \<Rightarrow> Respond (Reply 401 (failure ''Access token required''))
      | Some t \<Rightarrow>
          (case verifyToken e now t of
             Inr decoded \<Rightarrow> Next (req\<lparr>req_user := Some decoded\<rparr>)
           | Inl msg \<Rightarrow> Respond (Reply 403 (failure_with ''Invalid or expired token'' msg))))"

definition system_user :: user where
  "system_user = \<lparr> userId = JNum (Fin 1), username = JStr ''system'', role = JStr ''admin'',
                   iat = None, exp = None \<rparr>"

definition optionalAuthForReports :: "request \<Rightarrow> outcome" where
  "optionalAuthForReports req = Next (req\<lparr>req_user := Some system_user\<rparr>)"

definition optionalAuth :: "env \<Rightarrow> int \<Rightarrow> request \<Rightarrow> outcome" where
  "optionalAuth e now req =
     (case bearer_token req of
        None \<Rightarrow> Next req
      | Some t \<Rightarrow>
          (case verifyToken e now t of
             Inr decoded \<Rightarrow> Next (req\<lparr>req_user := Some decoded\<rparr>)
           | Inl _ \<Rightarrow> Next req))"

text \<open>
  \<open>refreshAccessToken\<close>: the new payload is rebuilt from the three claims of the decoded
  token; an error thrown by \<open>generateAccessToken\<close> lands in the same \<open>catch\<close> as one
  thrown by \<open>verifyToken\<close>.
\<close>

definition refreshAccessToken ::
  "(string \<Rightarrow> rat option) \<Rightarrow> env \<Rightarrow> int \<Rightarrow> request \<Rightarrow> response" where
  "refreshAccessToken ms e now req =
     (case refreshToken req of
        None \<Rightarrow> Reply 401 (failure ''Refresh token required'')
      | Some t \<Rightarrow>
          if falsy_token t then Reply 401 (failure ''Refresh token required'')
          else (case verifyToken e now t of
                  Inl msg \<Rightarrow> Reply 403 (failure_with ''Invalid refresh token'' msg)
                | Inr decoded \<Rightarrow>
                    (let payload = \<lparr> userId = userId decoded, username = username decoded,
                                     role = role decoded \<rparr>
                     in case generateAccessToken ms e now payload of
                          Inl _ \<Rightarrow>
                            Reply 403 (failure_with ''Invalid refresh token'' bad_expiresIn_message)
                        | Inr newAccessToken \<Rightarrow> Refreshed newAccessToken payload)))"

text \<open>
  The route \<open>POST /api/auth/refresh\<close> of index.js:
  \<open>req.cookies.refreshToken || req.body.refreshToken\<close>, then \<open>refreshAccessToken\<close>.
\<close>

definition auth_refresh :: "(string \<Rightarrow> rat option) \<Rightarrow> env \<Rightarrow> int \<Rightarrow> request \<Rightarrow> response" where
  "auth_refresh ms e now req =
     (let chosen = (case cookie_refreshToken req of
                      None \<Rightarrow> refreshToken req
                    | Some c \<Rightarrow> if falsy_token c then refreshToken req else Some c)
      in case chosen of
           None \<Rightarrow> Reply 401 (failure ''Refresh token required'')
         | Some t \<Rightarrow>
             if falsy_token t then Reply 401 (failure ''Refresh token required'')
             else refreshAccessToken ms e now (req\<lparr>refreshToken := Some t\<rparr>))"


section \<open>The connection manager\<close>

subsection \<open>The database, the process and suspended calls\<close>

text \<open>
  A pool handle is known by a number. The calls the process makes on the \<open>mssql\<close>
  package are recorded in the order they are made; what the database answers comes
  from outside, as the settlement of the promise the caller awaits.
\<close>

type_synonym pool = nat

type_synonym row = "(string \<times> jsval) list"

datatype js_error = JsError string string

fun error_message :: "js_error \<Rightarrow> string" where
  "error_message (JsError name msg) = msg"


datatype db_call =
    SqlConnect
  | SqlQuery pool string "(string \<times> jsval) list"
  | SqlExecute pool string "(string \<times> jsval) list"

datatype reply =
    ConnReply "js_error + pool"
  | QueryReply "js_error + row list option"

text \<open>
  The state of the process: the module variable \<open>globalPool\<close>, the pools that carry
  the \<open>error\<close> handler of index.js, the calls made so far, the port listened on and the
  exit code once the process has exited.
\<close>

record server =
  globalPool :: "pool option"
  handlers :: "pool list"
  calls :: "db_call list"
  listening :: "jsval option"
  exited :: "nat option"

definition initial :: server where
  "initial = \<lparr> globalPool = None, handlers = [], calls = [], listening = None, exited = None \<rparr>"

text \<open>
  An async function runs until its first \<open>await\<close>, and from each settlement to the next
  \<open>await\<close>, without interruption. It is modelled by a function that starts it and one
  that resumes it, each giving the state in which it stops: returned, thrown, or
  awaiting at a program point.
\<close>

datatype ('pc, 'a) susp = Returned 'a | Thrown js_error | Awaiting 'pc

text \<open>
  Running one call alone, against the answers of the database in order. An answer
  that is not of the kind the call awaits (a pool for a query, a recordset for a
  connect) is passed over.
\<close>

fun drive ::
  "('pc \<Rightarrow> reply \<Rightarrow> server \<Rightarrow> ('pc, 'a) susp \<times> server) \<Rightarrow>
   ('pc, 'a) susp \<times> server \<Rightarrow> reply list \<Rightarrow> ('pc, 'a) susp \<times> server \<times> reply list" where
  "drive resume (Awaiting pc, s) (r # rs) = drive resume (resume pc r s) rs"
| "drive resume (su, s) rs = (su, s, rs)"

definition probe :: "pool \<Rightarrow> db_call" where
  "probe p = SqlQuery p ''SELECT 1 as test'' []"

subsection \<open>index.js\<close>

datatype init_pc = Connecting | Testing

definition initializeDatabase_start :: "server \<Rightarrow> (init_pc, pool option) susp \<times> server" where
  "initializeDatabase_start s =
     (case globalPool s of
        Some p \<Rightarrow> (Returned (Some p), s)
      | None \<Rightarrow> (Awaiting Connecting, s\<lparr>calls := calls s @ [SqlConnect]\<rparr>))"

fun initializeDatabase_resume ::
  "init_pc \<Rightarrow> reply \<Rightarrow> server \<Rightarrow> (init_pc, pool option) susp \<times> server" where
  "initializeDatabase_resume Connecting (ConnReply (Inr p)) s =
     (Awaiting Testing,
      s\<lparr>globalPool := Some p, handlers := handlers s @ [p], calls := calls s @ [probe p]\<rparr>)"
| "initializeDatabase_resume Connecting (ConnReply (Inl err)) s =
     (Thrown err, s\<lparr>globalPool := None\<rparr>)"
| "initializeDatabase_resume Testing (QueryReply (Inr _)) s = (Returned (globalPool s), s)"
| "initializeDatabase_resume Testing (QueryReply (Inl err)) s =
     (Thrown err, s\<lparr>globalPool := None\<rparr>)"
| "initializeDatabase_resume pc _ s = (Awaiting pc, s)"

datatype get_pc = ColdInit init_pc | Probing | Reinit init_pc

text \<open>
  The two places where \<open>getDbConnection\<close> awaits \<open>initializeDatabase\<close>: inside the
  \<open>try\<close> of the cold branch, whose \<open>catch\<close> throws a new error, and in the \<open>catch\<close>
  of the probe, where an error passes through.
\<close>

fun cold :: "(init_pc, pool option) susp \<times> server \<Rightarrow> (get_pc, pool option) susp \<times> server" where
  "cold (Returned v, s) = (Returned v, s)"
| "cold (Thrown _, s) = (Thrown (JsError ''Error'' ''Database connection not available''), s)"
| "cold (Awaiting pc, s) = (Awaiting (ColdInit pc), s)"

fun reinit :: "(init_pc, pool option) susp \<times> server \<Rightarrow> (get_pc, pool option) susp \<times> server" where
  "reinit (Returned v, s) = (Returned v, s)"
| "reinit (Thrown err, s) = (Thrown err, s)"
| "reinit (Awaiting pc, s) = (Awaiting (Reinit pc), s)"

definition getDbConnection_start :: "server \<Rightarrow> (get_pc, pool option) susp \<times> server" where
  "getDbConnection_start s =
     (case globalPool s of
        None \<Rightarrow> cold (initializeDatabase_start s)
      | Some p \<Rightarrow> (Awaiting Probing, s\<lparr>calls := calls s @ [probe p]\<rparr>))"

fun getDbConnection_resume ::
  "get_pc \<Rightarrow> reply \<Rightarrow> server \<Rightarrow> (get_pc, pool option) susp \<times> server" where
  "getDbConnection_resume (ColdInit pc) r s = cold (initializeDatabase_resume pc r s)"
| "getDbConnection_resume (Reinit pc) r s = reinit (initializeDatabase_resume pc r s)"
| "getDbConnection_resume Probing (QueryReply (Inr _)) s = (Returned (globalPool s), s)"
| "getDbConnection_resume Probing (QueryReply (Inl _)) s =
     reinit (initializeDatabase_start (s\<lparr>globalPool := None\<rparr>))"
| "getDbConnection_resume Probing (ConnReply _) s = (Awaiting Probing, s)"

definition getDbConnection ::
  "server \<Rightarrow> reply list \<Rightarrow> (get_pc, pool option) susp \<times> server \<times> reply list" where
  "getDbConnection s rs = drive getDbConnection_resume (getDbConnection_start s) rs"

subsection \<open>server.js\<close>

definition server_initializeDatabase_start ::
  "server \<Rightarrow> (init_pc, pool option) susp \<times> server" where
  "server_initializeDatabase_start s =
     (case globalPool s of
        Some p \<Rightarrow> (Returned (Some p), s)
      | None \<Rightarrow> (Awaiting Connecting, s\<lparr>calls := calls s @ [SqlConnect]\<rparr>))"

fun server_initializeDatabase_resume ::
  "init_pc \<Rightarrow> reply \<Rightarrow> server \<Rightarrow> (init_pc, pool option) susp \<times> server" where
  "server_initializeDatabase_resume Connecting (ConnReply (Inr p)) s =
     (Returned (Some p), s\<lparr>globalPool := Some p\<rparr>)"
| "server_initializeDatabase_resume Connecting (ConnReply (Inl err)) s =
     (Thrown err, s\<lparr>globalPool := None\<rparr>)"
| "server_initializeDatabase_resume pc _ s = (Awaiting pc, s)"

definition server_getDbConnection_start :: "server \<Rightarrow> (get_pc, pool option) susp \<times> server" where
  "server_getDbConnection_start s =
     (case globalPool s of
        None \<Rightarrow> cold (server_initializeDatabase_start s)
      | Some p \<Rightarrow> (Returned (Some p), s))"

fun server_getDbConnection_resume ::
  "get_pc \<Rightarrow> reply \<Rightarrow> server \<Rightarrow> (get_pc, pool option) susp \<times> server" where
  "server_getDbConnection_resume (ColdInit pc) r s = cold (server_initializeDatabase_resume pc r s)"
| "server_getDbConnection_resume pc _ s = (Awaiting pc, s)"

definition server_getDbConnection ::
  "server \<Rightarrow> reply list \<Rightarrow> (get_pc, pool option) susp \<times> server \<times> reply list" where
  "server_getDbConnection s rs =
     drive server_getDbConnection_resume (server_getDbConnection_start s) rs"

subsection \<open>Requests in flight together (index.js)\<close>

text \<open>
  Several calls of \<open>getDbConnection\<close> share the process. An event starts a new call,
  settles the promise one of them awaits, or is the \<open>error\<close> event of a pool, whose
  handler resets \<open>globalPool\<close>.
\<close>

record system =
  process :: server
  tasks :: "(get_pc, pool option) susp list"

datatype event = Call | Settle nat reply | PoolError pool

fun exec :: "event \<Rightarrow> system \<Rightarrow> system" where
  "exec Call sys =
     (case getDbConnection_start (process sys) of
        (su, s) \<Rightarrow> \<lparr> process = s, tasks = tasks sys @ [su] \<rparr>)"
| "exec (Settle i r) sys =
     (if i < length (tasks sys) then
        (case tasks sys ! i of
           Awaiting pc \<Rightarrow>
             (case getDbConnection_resume pc r (process sys) of
                (su, s) \<Rightarrow> \<lparr> process = s, tasks = (tasks sys)[i := su] \<rparr>)
         | _ \<Rightarrow> sys)
      else sys)"
| "exec (PoolError p) sys =
     (if p \<in> set (handlers (process sys))
      then sys\<lparr>process := (process sys)\<lparr>globalPool := None\<rparr>\<rparr>
      else sys)"

definition run :: "event list \<Rightarrow> system \<Rightarrow> system" where
  "run evs sys = foldl (\<lambda>s ev. exec ev s) sys evs"

definition connects :: "server \<Rightarrow> nat" where
  "connects s = length (filter (\<lambda>c. c = SqlConnect) (calls s))"

definition cold_start :: system where
  "cold_start = \<lparr> process = initial, tasks = [] \<rparr>"


section \<open>Start-up\<close>

text \<open>The loop over \<open>requiredEnvVars\<close> at the top of index.js: the first variable that is
  unset or empty, if any.\<close>

definition requiredEnvVars :: "string list" where
  "requiredEnvVars = [''DB_USER'', ''DB_PASSWORD'', ''DB_SERVER'', ''DB_NAME'']"

fun missing_env :: "env \<Rightarrow> string list \<Rightarrow> string option" where
  "missing_env e [] = None"
| "missing_env e (v # vs) =
     (case e v of
        None \<Rightarrow> Some v
      | Some x \<Rightarrow> if x = [] then Some v else missing_env e vs)"

record db_config =
  cfg_user :: "string option"
  cfg_password :: "string option"
  cfg_server :: "string option"
  cfg_database :: "string option"
  connectionTimeout :: nat
  requestTimeout :: nat

definition config :: "env \<Rightarrow> db_config" where
  "config e = \<lparr> cfg_user = e ''DB_USER'', cfg_password = e ''DB_PASSWORD'',
                cfg_server = e ''DB_SERVER'', cfg_database = e ''DB_NAME'',
                connectionTimeout = 30000, requestTimeout = 30000 \<rparr>"

text \<open>The origins of the CORS configuration of index.js are written in the code.\<close>

definition cors_origins :: "string list" where
  "cors_origins = [''http://localhost:5173'', ''http://localhost:5174'',
                   ''http://localhost:5175'', ''http://localhost:5176'',
                   ''http://localhost:5177'', ''http://localhost:3000'']"

text \<open>
  server.js: \<open>process.env.CORS_ORIGIN ? process.env.CORS_ORIGIN.split(',') : [...]\<close>
\<close>

fun split_on :: "char \<Rightarrow> string \<Rightarrow> string list" where
  "split_on c [] = [[]]"
| "split_on c (x # xs) =
     (if x = c then [] # split_on c xs
      else (case split_on c xs of
              [] \<Rightarrow> [[x]]
            | y # ys \<Rightarrow> (x # y) # ys))"

definition allowedOrigins :: "env \<Rightarrow> string list" where
  "allowedOrigins e =
     (case e ''CORS_ORIGIN'' of
        None \<Rightarrow> [''http://localhost:5173'']
      | Some v \<Rightarrow> if v = [] then [''http://localhost:5173''] else split_on CHR '','' v)"

text \<open>\<open>process.env.PORT || 4000\<close>\<close>

definition PORT :: "env \<Rightarrow> jsval" where
  "PORT e = (case e ''PORT'' of
               None \<Rightarrow> JNum (Fin 4000)
             | Some v \<Rightarrow> if v = [] then JNum (Fin 4000) else JStr v)"

text \<open>
  \<open>startServer\<close> awaits \<open>initializeDatabase\<close> inside a \<open>try\<close>: when it returns,
  \<open>app.listen(PORT)\<close>; when it throws, \<open>process.exit(1)\<close>.
\<close>

fun started :: "jsval \<Rightarrow> (init_pc, pool option) susp \<times> server \<Rightarrow> (init_pc, unit) susp \<times> server" where
  "started port (Returned _, s) = (Returned (), s\<lparr>listening := Some port\<rparr>)"
| "started port (Thrown _, s) = (Returned (), s\<lparr>exited := Some 1\<rparr>)"
| "started port (Awaiting pc, s) = (Awaiting pc, s)"

definition startServer_start :: "env \<Rightarrow> server \<Rightarrow> (init_pc, unit) susp \<times> server" where
  "startServer_start e s = started (PORT e) (initializeDatabase_start s)"

definition startServer_resume ::
  "env \<Rightarrow> init_pc \<Rightarrow> reply \<Rightarrow> server \<Rightarrow> (init_pc, unit) susp \<times> server" where
  "startServer_resume e pc r s = started (PORT e) (initializeDatabase_resume pc r s)"

definition startServer ::
  "env \<Rightarrow> server \<Rightarrow> reply list \<Rightarrow> (init_pc, unit) susp \<times> server \<times> reply list" where
  "startServer e s rs = drive (startServer_resume e) (startServer_start e s) rs"

definition server_startServer_start :: "env \<Rightarrow> server \<Rightarrow> (init_pc, unit) susp \<times> server" where
  "server_startServer_start e s = started (PORT e) (server_initializeDatabase_start s)"

definition server_startServer_resume ::
  "env \<Rightarrow> init_pc \<Rightarrow> reply \<Rightarrow> server \<Rightarrow> (init_pc, unit) susp \<times> server" where
  "server_startServer_resume e pc r s = started (PORT e) (server_initializeDatabase_resume pc r s)"

definition server_startServer ::
  "env \<Rightarrow> server \<Rightarrow> reply list \<Rightarrow> (init_pc, unit) susp \<times> server \<times> reply list" where
  "server_startServer e s rs =
     drive (server_startServer_resume e) (server_startServer_start e s) rs"

text \<open>
  Running index.js: the check of the environment, then (the routes registered)
  \<open>startServer()\<close>. The result is the state of the process once the answers \<open>rs\<close> of
  the database are used up.
\<close>

definition index_js :: "env \<Rightarrow> reply list \<Rightarrow> server" where
  "index_js e rs =
     (case missing_env e requiredEnvVars of
        Some _ \<Rightarrow> initial\<lparr>exited := Some 1\<rparr>
      | None \<Rightarrow> fst (snd (startServer e initial rs)))"

definition server_js :: "env \<Rightarrow> reply list \<Rightarrow> server" where
  "server_js e rs = fst (snd (server_startServer e initial rs))"


section \<open>Route handlers\<close>

subsection \<open>Helpers\<close>


definition js_or :: "jsval \<Rightarrow> jsval \<Rightarrow> jsval" where
  "js_or a b = (if truthy a then a else b)"



text \<open>\<open>v.length\<close>; reading a property of \<open>undefined\<close> or \<open>null\<close> throws a TypeError (\<open>None\<close>).\<close>

definition length_of :: "jsval \<Rightarrow> jsval option" where
  "length_of v =
     (case v of
        JUndefined \<Rightarrow> None
      | JNull \<Rightarrow> None
      | JStr s \<Rightarrow> Some (JNum (Fin (of_nat (length s))))
      | JArr xs \<Rightarrow> Some (JNum (Fin (of_nat (length xs))))
      | JObj kvs \<Rightarrow> Some (case map_of kvs ''length'' of None \<Rightarrow> JUndefined | Some x \<Rightarrow> x)
      | _ \<Rightarrow> Some JUndefined)"


definition type_error :: "string \<Rightarrow> string \<Rightarrow> js_error" where
  "type_error what prop =
     JsError ''TypeError''
       (''Cannot read properties of '' @ what @ '' (reading '' @ CHR 0x27 # prop @ CHR 0x27 # '')'')"

definition column :: "row \<Rightarrow> string \<Rightarrow> jsval" where
  "column r k = (case map_of r k of None \<Rightarrow> JUndefined | Some v \<Rightarrow> v)"


text \<open>
  A handler awaits \<open>getDbConnection()\<close>, then one query or procedure call.
  \<open>acquired\<close> is the step from the first to the second: \<open>pool.request()\<close> on the value
  \<open>getDbConnection\<close> returned, the call itself, and the handler's \<open>catch\<close> for an error.
\<close>

datatype handler_pc = Acquiring get_pc | Executing

fun acquired ::
  "(pool \<Rightarrow> db_call) \<Rightarrow> (js_error \<Rightarrow> response) \<Rightarrow>
   (get_pc, pool option) susp \<times> server \<Rightarrow> (handler_pc, response) susp \<times> server" where
  "acquired call catch (Awaiting pc, s) = (Awaiting (Acquiring pc), s)"
| "acquired call catch (Thrown err, s) = (Returned (catch err), s)"
| "acquired call catch (Returned None, s) = (Returned (catch (type_error ''null'' ''request'')), s)"
| "acquired call catch (Returned (Some p), s) = (Awaiting Executing, s\<lparr>calls := calls s @ [call p]\<rparr>)"



subsection \<open>POST /api/high-value-trans (index.js)\<close>







subsection \<open>POST /api/reports/high-value (server.js)\<close>






subsection \<open>GET /api/test/user/:username (index.js)\<close>

definition test_user_catch :: "js_error \<Rightarrow> response" where
  "test_user_catch err =
     Reply 500 (JObj [(''success'', JBool False), (''message'', JStr ''Error fetching user''),
                      (''error'', JStr (error_message err))])"

definition test_user_query :: "string \<Rightarrow> pool \<Rightarrow> db_call" where
  "test_user_query name p =
     SqlQuery p
       ''SELECT User_Name, User_Password, User_ID, Active, Role FROM Tbl_UserMaster WHERE User_Name = @username''
       [(''username'', JStr name)]"

text \<open>\<open>user.User_Password?.length || 0\<close>\<close>

definition passwordLength :: "row \<Rightarrow> jsval" where
  "passwordLength u =
     js_or (case length_of (column u ''User_Password'') of None \<Rightarrow> JUndefined | Some l \<Rightarrow> l)
           (JNum (Fin 0))"

text \<open>\<open>user.User_Password === "2255"\<close>\<close>

definition passwordMatch :: "row \<Rightarrow> jsval" where
  "passwordMatch u = JBool (column u ''User_Password'' = JStr ''2255'')"

definition user_found :: "row \<Rightarrow> jsval" where
  "user_found u =
     JObj [(''success'', JBool True), (''message'', JStr ''User found''),
           (''data'', JObj [(''username'', column u ''User_Name''),
                            (''userId'', column u ''User_ID''),
                            (''active'', column u ''Active''),
                            (''role'', column u ''Role''),
                            (''passwordLength'', passwordLength u),
                            (''passwordMatch'', passwordMatch u)])]"

definition test_user_start :: "string \<Rightarrow> server \<Rightarrow> (handler_pc, response) susp \<times> server" where
  "test_user_start name s =
     acquired (test_user_query name) test_user_catch (getDbConnection_start s)"

fun test_user_resume ::
  "string \<Rightarrow> handler_pc \<Rightarrow> reply \<Rightarrow> server \<Rightarrow> (handler_pc, response) susp \<times> server" where
  "test_user_resume name (Acquiring pc) r s =
     acquired (test_user_query name) test_user_catch (getDbConnection_resume pc r s)"
| "test_user_resume name Executing (QueryReply (Inr None)) s =
     (Returned (test_user_catch (type_error ''undefined'' ''length'')), s)"
| "test_user_resume name Executing (QueryReply (Inr (Some []))) s =
     (Returned (Reply 200 (JObj [(''success'', JBool False), (''message'', JStr ''User not found''),
                                 (''username'', JStr name)])), s)"
| "test_user_resume name Executing (QueryReply (Inr (Some (u # _)))) s =
     (Returned (Reply 200 (user_found u)), s)"
| "test_user_resume name Executing (QueryReply (Inl err)) s = (Returned (test_user_catch err), s)"
| "test_user_resume name Executing (ConnReply _) s = (Awaiting Executing, s)"

definition test_user ::
  "string \<Rightarrow> server \<Rightarrow> reply list \<Rightarrow> (handler_pc, response) susp \<times> server \<times> reply list" where
  "test_user name s rs = drive (test_user_resume name) (test_user_start name s) rs"

subsection \<open>The routes of index.js and their middleware\<close>

datatype middleware = AuthenticateToken | OptionalAuthForReports

definition routes :: "env \<Rightarrow> ((string \<times> string) \<times> middleware list) list" where
  "routes e =
     [((''GET'', ''/''), []),
      ((''POST'', ''/api/login''), []),
      ((''GET'', ''/api/reports/menu''), [])] @
     (if e ''NODE_ENV'' \<noteq> Some ''production'' then [((''GET'', ''/api/debug/menu-table''), [])]
      else []) @
     [((''POST'', ''/api/auth/login''), []),
      ((''POST'', ''/api/auth/logout''), []),
      ((''POST'', ''/api/auth/refresh''), []),
      ((''GET'', ''/api/auth/me''), [AuthenticateToken]),
      ((''GET'', ''/api/test/users''), []),
      ((''GET'', ''/api/test/user/:username''), []),
      ((''GET'', ''/api/Users''), [AuthenticateToken]),
      ((''POST'', ''/api/usercreatapi''), []),
      ((''POST'', ''/api/userright''), [AuthenticateToken]),
      ((''POST'', ''/api/userright-transfer''), [AuthenticateToken]),
      ((''GET'', ''/api/sections''), []),
      ((''POST'', ''/api/schemes''), []),
      ((''POST'', ''/api/high-value-trans''), [OptionalAuthForReports]),
      ((''POST'', ''/api/document''), [OptionalAuthForReports]),
      ((''GET'', ''/api/keywords''), []),
      ((''GET'', ''/api/document/:id''), []),
      ((''GET'', ''/api/ProgrammeName''), []),
      ((''GET'', ''/api/TimeSlots''), []),
      ((''POST'', ''/api/reportdocument''), []),
      ((''POST'', ''/api/updateAttendMember''), []),
      ((''GET'', ''/api/rowStyling''), [OptionalAuthForReports]),
      ((''POST'', ''/api/regMembersReport''), []),
      ((''GET'', ''/api/timeslots-for-registration''), []),
      ((''POST'', ''/api/register-member''), [])]"

fun apply_middleware :: "env \<Rightarrow> int \<Rightarrow> middleware \<Rightarrow> request \<Rightarrow> outcome" where
  "apply_middleware e now AuthenticateToken req = authenticateToken e now req"
| "apply_middleware e now OptionalAuthForReports req = optionalAuthForReports req"

fun chain :: "env \<Rightarrow> int \<Rightarrow> middleware list \<Rightarrow> request \<Rightarrow> outcome" where
  "chain e now [] req = Next req"
| "chain e now (m # ms) req =
     (case apply_middleware e now m req of
        Respond r \<Rightarrow> Respond r
      | Next req' \<Rightarrow> chain e now ms req')"

text \<open>
  A request for \<open>GET /api/test/user/:username\<close> as Express serves it: the middleware
  registered with the route, then the handler.
\<close>

definition get_test_user ::
  "env \<Rightarrow> int \<Rightarrow> request \<Rightarrow> string \<Rightarrow> server \<Rightarrow> reply list \<Rightarrow>
   (handler_pc, response) susp \<times> server \<times> reply list" where
  "get_test_user e now req name s rs =
     (case map_of (routes e) (''GET'', ''/api/test/user/:username'') of
        None \<Rightarrow> (Returned (Reply 404 JUndefined), s, rs)
      | Some ms \<Rightarrow>
          (case chain e now ms req of
             Respond r \<Rightarrow> (Returned r, s, rs)
           | Next _ \<Rightarrow> test_user name s rs))"


section \<open>Inputs used in the examples\<close>

text \<open>
  The values of the \<open>ms\<close> package on the time spans that occur below; its values on
  other strings are left open.
\<close>

definition ms_table :: "string \<Rightarrow> rat option" where
  "ms_table t =
     (if t = ''24h'' then Some 86400000
      else if t = ''7d'' then Some 604800000
      else if t = ''1h'' then Some 3600000
      else if t = ''0'' then Some 0
      else undefined)"


definition alice :: claims where
  "alice = \<lparr> userId = JNum (Fin 7), username = JStr ''alice'', role = JStr ''user'' \<rparr>"

definition anonymous :: request where
  "anonymous = \<lparr> authorization = None, refreshToken = None, cookie_refreshToken = None,
                 req_user = None \<rparr>"


definition alice_row :: row where
  "alice_row = [(''User_Name'', JStr ''alice''), (''User_Password'', JStr ''2255''),
                (''User_ID'', JNum (Fin 7)), (''Active'', JBool True), (''Role'', JStr ''admin'')]"


definition db_env :: env where
  "db_env = [''DB_USER'' \<mapsto> ''sa'', ''DB_PASSWORD'' \<mapsto> ''pw'', ''DB_SERVER'' \<mapsto> ''db'',
             ''DB_NAME'' \<mapsto> ''bank'']"

definition live :: server where
  "live = initial\<lparr>globalPool := Some 1\<rparr>"

definition connection_closed :: js_error where
  "connection_closed = JsError ''ConnectionError'' ''Connection is closed.''"

text \<open>Issuing a token at \<open>t0\<close> and verifying it at \<open>t1\<close>.\<close>

definition issue_then_verify ::
  "(env \<Rightarrow> int \<Rightarrow> claims \<Rightarrow> jwt_error + token) \<Rightarrow> env \<Rightarrow> int \<Rightarrow> int \<Rightarrow> claims \<Rightarrow>
   (string + user) option" where
  "issue_then_verify issue e t0 t1 payload =
     (case issue e t0 payload of
        Inl _ \<Rightarrow> None
      | Inr tok \<Rightarrow> Some (verifyToken e t1 tok))"

text \<open>
  What start-up guarantees of the state it leaves: a process that listens has not exited
  and holds a pool, and a process that has exited did so with code 1 and does not listen.
\<close>

definition fail_fast :: "env \<Rightarrow> server \<Rightarrow> bool" where
  "fail_fast e s \<longleftrightarrow>
     (listening s \<noteq> None \<longrightarrow>
        listening s = Some (PORT e) \<and> exited s = None \<and> globalPool s \<noteq> None)
     \<and> (exited s \<noteq> None \<longrightarrow> exited s = Some 1 \<and> listening s = None)"

section \<open>Properties\<close>

subsection \<open>Steps of the start-up functions\<close>

lemma startServer_resume_simps:
  "startServer_resume e Connecting (ConnReply (Inr p)) s =
     (Awaiting Testing,
      s\<lparr>globalPool := Some p, handlers := handlers s @ [p], calls := calls s @ [probe p]\<rparr>)"
  "startServer_resume e Connecting (ConnReply (Inl err)) s =
     (Returned (), s\<lparr>globalPool := None, exited := Some 1\<rparr>)"
  "startServer_resume e Connecting (QueryReply q) s = (Awaiting Connecting, s)"
  "startServer_resume e Testing (QueryReply (Inr x)) s =
     (Returned (), s\<lparr>listening := Some (PORT e)\<rparr>)"
  "startServer_resume e Testing (QueryReply (Inl err)) s =
     (Returned (), s\<lparr>globalPool := None, exited := Some 1\<rparr>)"
  "startServer_resume e Testing (ConnReply c) s = (Awaiting Testing, s)"
  by (simp_all add: startServer_resume_def)

lemma server_startServer_resume_simps:
  "server_startServer_resume e Connecting (ConnReply (Inr p)) s =
     (Returned (), s\<lparr>globalPool := Some p, listening := Some (PORT e)\<rparr>)"
  "server_startServer_resume e Connecting (ConnReply (Inl err)) s =
     (Returned (), s\<lparr>globalPool := None, exited := Some 1\<rparr>)"
  "server_startServer_resume e Connecting (QueryReply q) s = (Awaiting Connecting, s)"
  by (simp_all add: server_startServer_resume_def)

lemma drive_testing:
  "listening s = None \<Longrightarrow> exited s = None \<Longrightarrow> globalPool s \<noteq> None \<Longrightarrow>
   fail_fast e (fst (snd (drive (startServer_resume e) (Awaiting Testing, s) rs)))"
proof (induction rs)
  case Nil
  then show ?case by (simp add: fail_fast_def)
next
  case (Cons r rs)
  show ?case
  proof (cases r)
    case (ConnReply c)
    with Cons show ?thesis by (simp add: startServer_resume_simps)
  next
    case (QueryReply q)
    with Cons.prems show ?thesis
      by (cases q) (auto simp: startServer_resume_simps fail_fast_def)
  qed
qed

lemma drive_connecting:
  "listening s = None \<Longrightarrow> exited s = None \<Longrightarrow>
   fail_fast e (fst (snd (drive (startServer_resume e) (Awaiting Connecting, s) rs)))"
proof (induction rs)
  case Nil
  then show ?case by (simp add: fail_fast_def)
next
  case (Cons r rs)
  show ?case
  proof (cases r)
    case (QueryReply q)
    with Cons show ?thesis by (simp add: startServer_resume_simps)
  next
    case (ConnReply c)
    show ?thesis
    proof (cases c)
      case (Inl err)
      with ConnReply Cons.prems show ?thesis
        by (simp add: startServer_resume_simps fail_fast_def)
    next
      case (Inr p)
      with ConnReply Cons.prems show ?thesis
        using drive_testing [of "s\<lparr>globalPool := Some p, handlers := handlers s @ [p],
                                    calls := calls s @ [probe p]\<rparr>" e rs]
        by (simp add: startServer_resume_simps)
    qed
  qed
qed

lemma index_js_fail_fast: "fail_fast e (index_js e rs)"
proof (cases "missing_env e requiredEnvVars")
  case None
  then show ?thesis
    using drive_connecting [of "initial\<lparr>calls := [SqlConnect]\<rparr>" e rs]
    by (simp add: index_js_def startServer_def startServer_start_def
        initializeDatabase_start_def initial_def)
next
  case (Some v)
  then show ?thesis by (simp add: index_js_def fail_fast_def initial_def)
qed

lemma server_drive_connecting:
  "listening s = None \<Longrightarrow> exited s = None \<Longrightarrow>
   fail_fast e (fst (snd (drive (server_startServer_resume e) (Awaiting Connecting, s) rs)))"
proof (induction rs)
  case Nil
  then show ?case by (simp add: fail_fast_def)
next
  case (Cons r rs)
  show ?case
  proof (cases r)
    case (QueryReply q)
    with Cons show ?thesis by (simp add: server_startServer_resume_simps)
  next
    case (ConnReply c)
    with Cons.prems show ?thesis
      by (cases c) (auto simp: server_startServer_resume_simps fail_fast_def)
  qed
qed

lemma server_js_fail_fast: "fail_fast e (server_js e rs)"
  using server_drive_connecting [of "initial\<lparr>calls := [SqlConnect]\<rparr>" e rs]
  by (simp add: server_js_def server_startServer_def server_startServer_start_def
      server_initializeDatabase_start_def initial_def)

lemma db_env_complete: "missing_env db_env requiredEnvVars = None"
  by (simp add: db_env_def requiredEnvVars_def)

lemma db_env_unset:
  "db_env ''PORT'' = None" "db_env ''JWT_SECRET'' = None" "db_env ''JWT_EXPIRES_IN'' = None"
  "db_env ''JWT_REFRESH_EXPIRES_IN'' = None" "db_env ''CORS_ORIGIN'' = None"
  by (simp_all add: db_env_def)

lemma missing_env_iff:
  "missing_env e vs = None \<longleftrightarrow> (\<forall>v \<in> set vs. \<exists>x. e v = Some x \<and> x \<noteq> [])"
  by (induction vs) (auto split: option.splits)

subsection \<open>Steps of the report handler\<close>









subsection \<open>Calls started during a cold start\<close>

lemma cold_call:
  assumes "globalPool (process sys) = None"
  shows "globalPool (process (exec Call sys)) = None
       \<and> connects (process (exec Call sys)) = Suc (connects (process sys))
       \<and> tasks (exec Call sys) = tasks sys @ [Awaiting (ColdInit Connecting)]"
  using assms
  by (simp add: getDbConnection_start_def initializeDatabase_start_def connects_def)

lemma cold_calls:
  "globalPool (process sys) = None \<Longrightarrow>
   globalPool (process (run (replicate n Call) sys)) = None
   \<and> connects (process (run (replicate n Call) sys)) = connects (process sys) + n
   \<and> tasks (run (replicate n Call) sys) = tasks sys @ replicate n (Awaiting (ColdInit Connecting))"
proof (induction n arbitrary: sys)
  case 0
  then show ?case by (simp add: run_def)
next
  case (Suc n)
  have step: "run (replicate (Suc n) Call) sys = run (replicate n Call) (exec Call sys)"
    by (simp add: run_def)
  from cold_call [OF Suc.prems] Suc.IH [of "exec Call sys"] show ?case
    unfolding step by (simp add: replicate_app_Cons_same)
qed

lemma password_data:
  "column u ''User_Password'' = JStr pw \<Longrightarrow>
   passwordLength u = JNum (Fin (of_nat (length pw))) \<and> passwordMatch u = JBool (pw = ''2255'')"
  by (cases pw) (simp_all add: passwordLength_def passwordMatch_def length_of_def js_or_def)

lemma test_user_route: "map_of (routes e) (''GET'', ''/api/test/user/:username'') = Some []"
  by (simp add: routes_def)


section \<open>The claims\<close>

text \<open>
  Claim C1, as amended. index.js keeps no record of a connect in flight: each of \<open>n\<close>
  calls of \<open>getDbConnection\<close> that start while \<open>globalPool\<close> is empty and before any
  connect has settled calls \<open>sql.connect\<close> itself, so \<open>n\<close> calls of \<open>sql.connect\<close> are
  made and every caller awaits its own. A call that starts once a handle is stored
  makes no connect: it probes the stored handle. (What the \<open>mssql\<close> package does
  with simultaneous calls of \<open>sql.connect\<close> is outside the repository.)
\<close>

theorem cold_callers_each_connect:
  "connects (process (run (replicate n Call) cold_start)) = n
   \<and> tasks (run (replicate n Call) cold_start) = replicate n (Awaiting (ColdInit Connecting))
   \<and> (globalPool (process sys) = Some p \<longrightarrow>
        connects (process (exec Call sys)) = connects (process sys)
        \<and> calls (process (exec Call sys)) = calls (process sys) @ [probe p]
        \<and> tasks (exec Call sys) = tasks sys @ [Awaiting Probing])"
proof -
  have "globalPool (process cold_start) = None" "connects (process cold_start) = 0"
       "tasks cold_start = []"
    by (simp_all add: cold_start_def initial_def connects_def)
  with cold_calls [of cold_start n] show ?thesis
    by (auto simp: getDbConnection_start_def connects_def probe_def)
qed

theorem cold_callers_each_connect_witness:
  "globalPool (process \<lparr> process = live, tasks = [] \<rparr>) = Some 1
   \<and> connects (process (run (replicate 3 Call) cold_start)) = 3
   \<and> connects (process (exec Call \<lparr> process = live, tasks = [] \<rparr>)) = connects live
   \<and> tasks (exec Call \<lparr> process = live, tasks = [] \<rparr>) = [Awaiting Probing]"
  using cold_callers_each_connect
      [where n = 3 and sys = "\<lparr> process = live, tasks = [] \<rparr>" and p = 1]
  by (simp add: live_def initial_def)

text \<open>
  Claim C1 as stated fails: two calls of \<open>getDbConnection\<close> during a cold start,
  the second started before the connect of the first has settled, make two calls of
  \<open>sql.connect\<close>, not one, and each of the two awaits its own.
\<close>

theorem two_cold_callers_two_connects:
  "connects (process (run [Call, Call] cold_start)) = 2
   \<and> calls (process (run [Call, Call] cold_start)) = [SqlConnect, SqlConnect]
   \<and> tasks (run [Call, Call] cold_start) =
       [Awaiting (ColdInit Connecting), Awaiting (ColdInit Connecting)]"
  by (simp add: run_def cold_start_def initial_def getDbConnection_start_def
      initializeDatabase_start_def connects_def)

text \<open>
  Claim C2, as amended. In index.js a call of \<open>getDbConnection\<close> that finds a stored
  handle issues the probe \<open>SELECT 1 as test\<close> on it and returns nothing before the
  probe settles. When the probe succeeds the stored handle is returned and no connect
  is made. When it fails, \<open>globalPool\<close> is reset and \<open>sql.connect\<close> is called: a
  connect and test query that succeed give the fresh handle, which is stored and
  returned; a connect that fails throws, leaves \<open>globalPool\<close> empty, and the next call
  connects again and succeeds once the database answers. In server.js
  \<open>getDbConnection\<close> returns a stored handle as it is, without a probe.
\<close>

theorem probe_then_reconnect:
  assumes "globalPool s = Some p"
  shows "getDbConnection s [] = (Awaiting Probing, s\<lparr>calls := calls s @ [probe p]\<rparr>, [])
    \<and> getDbConnection s (QueryReply (Inr x) # rs) =
         (Returned (Some p), s\<lparr>calls := calls s @ [probe p]\<rparr>, rs)
    \<and> getDbConnection s (QueryReply (Inl err) # ConnReply (Inr p') # QueryReply (Inr x) # rs) =
         (Returned (Some p'),
          s\<lparr>globalPool := Some p', handlers := handlers s @ [p'],
            calls := calls s @ [probe p, SqlConnect, probe p']\<rparr>, rs)
    \<and> getDbConnection s (QueryReply (Inl err) # ConnReply (Inl err') # rs) =
         (Thrown err', s\<lparr>globalPool := None, calls := calls s @ [probe p, SqlConnect]\<rparr>, rs)
    \<and> getDbConnection (s\<lparr>globalPool := None, calls := calls s @ [probe p, SqlConnect]\<rparr>)
         (ConnReply (Inr p') # QueryReply (Inr x) # rs) =
         (Returned (Some p'),
          s\<lparr>globalPool := Some p', handlers := handlers s @ [p'],
            calls := calls s @ [probe p, SqlConnect, SqlConnect, probe p']\<rparr>, rs)
    \<and> server_getDbConnection s rs = (Returned (Some p), s, rs)"
  using assms
  by (simp add: getDbConnection_def getDbConnection_start_def initializeDatabase_start_def
      server_getDbConnection_def server_getDbConnection_start_def)

theorem probe_then_reconnect_witness:
  "globalPool live = Some 1
   \<and> getDbConnection live [QueryReply (Inr (Some []))] =
       (Returned (Some 1), live\<lparr>calls := [probe 1]\<rparr>, [])
   \<and> getDbConnection live
       [QueryReply (Inl connection_closed), ConnReply (Inr 2), QueryReply (Inr (Some []))] =
       (Returned (Some 2),
        live\<lparr>globalPool := Some 2, handlers := [2], calls := [probe 1, SqlConnect, probe 2]\<rparr>, [])
   \<and> getDbConnection live [QueryReply (Inl connection_closed), ConnReply (Inl connection_closed)] =
       (Thrown connection_closed, live\<lparr>globalPool := None, calls := [probe 1, SqlConnect]\<rparr>, [])
   \<and> getDbConnection (live\<lparr>globalPool := None, calls := [probe 1, SqlConnect]\<rparr>)
       [ConnReply (Inr 2), QueryReply (Inr (Some []))] =
       (Returned (Some 2),
        live\<lparr>globalPool := Some 2, handlers := [2],
             calls := [probe 1, SqlConnect, SqlConnect, probe 2]\<rparr>, [])"
  using probe_then_reconnect
      [where s = live and p = 1 and x = "Some []" and rs = "[]" and err = connection_closed and p' = 2
         and err' = connection_closed]
  by (simp add: live_def initial_def)

text \<open>
  Claim C2 as stated fails for server.js: with a handle stored and a database that
  would reject any query, \<open>getDbConnection\<close> returns the stored handle, issues no
  probe (no call is recorded, no answer is consumed) and builds no fresh handle.
\<close>

theorem server_js_returns_handle_unprobed:
  "server_getDbConnection live [QueryReply (Inl connection_closed), ConnReply (Inr 2)] =
     (Returned (Some 1), live, [QueryReply (Inl connection_closed), ConnReply (Inr 2)])
   \<and> calls live = []"
  by (simp add: server_getDbConnection_def server_getDbConnection_start_def live_def initial_def)

text \<open>
  Claim C3. When the connect made at start-up is rejected (and, in index.js, when the
  test query after it is rejected) the process exits with code 1 and never listens;
  it listens only after the connect (and test query) succeeded. For every sequence of
  answers of the database, a process that listens holds a pool and has not exited, and
  a process that has exited did so with code 1 without listening. This holds for
  index.js and for server.js.
\<close>

theorem fail_fast_startup:
  "(missing_env e requiredEnvVars = None \<longrightarrow>
      index_js e (ConnReply (Inl err) # rs) = initial\<lparr>calls := [SqlConnect], exited := Some 1\<rparr>
    \<and> index_js e (ConnReply (Inr p) # QueryReply (Inl err) # rs) =
        initial\<lparr>handlers := [p], calls := [SqlConnect, probe p], exited := Some 1\<rparr>
    \<and> index_js e (ConnReply (Inr p) # QueryReply (Inr x) # rs) =
        initial\<lparr>globalPool := Some p, handlers := [p], calls := [SqlConnect, probe p],
                listening := Some (PORT e)\<rparr>)
   \<and> server_js e (ConnReply (Inl err) # rs) = initial\<lparr>calls := [SqlConnect], exited := Some 1\<rparr>
   \<and> server_js e (ConnReply (Inr p) # rs) =
        initial\<lparr>globalPool := Some p, calls := [SqlConnect], listening := Some (PORT e)\<rparr>
   \<and> fail_fast e (index_js e rs)
   \<and> fail_fast e (server_js e rs)"
  using index_js_fail_fast [of e rs] server_js_fail_fast [of e rs]
  by (simp add: index_js_def startServer_def startServer_start_def startServer_resume_simps
      initializeDatabase_start_def server_js_def server_startServer_def
      server_startServer_start_def server_startServer_resume_simps
      server_initializeDatabase_start_def initial_def)

theorem fail_fast_startup_witness:
  "missing_env db_env requiredEnvVars = None
   \<and> exited (index_js db_env [ConnReply (Inl connection_closed)]) = Some 1
   \<and> listening (index_js db_env [ConnReply (Inl connection_closed)]) = None
   \<and> exited (index_js db_env [ConnReply (Inr 1), QueryReply (Inl connection_closed)]) = Some 1
   \<and> listening (index_js db_env [ConnReply (Inr 1), QueryReply (Inl connection_closed)]) = None
   \<and> exited (index_js db_env [ConnReply (Inr 1), QueryReply (Inr (Some []))]) = None
   \<and> listening (index_js db_env [ConnReply (Inr 1), QueryReply (Inr (Some []))]) =
       Some (JNum (Fin 4000))
   \<and> exited (server_js db_env [ConnReply (Inl connection_closed)]) = Some 1
   \<and> listening (server_js db_env [ConnReply (Inl connection_closed)]) = None"
  using fail_fast_startup
      [where e = db_env and err = connection_closed and rs = "[]" and p = 1 and x = "Some []"]
    db_env_complete db_env_unset
  by (simp add: initial_def PORT_def)






text \<open>
  Claim C6, as amended. \<open>verifyToken\<close> rejects a token once the clock has reached its
  expiry, which is the issue time plus the configured time span in whole seconds.
  The span is no parameter of the issuing functions: \<open>generateAccessToken(payload)\<close>
  and \<open>generateRefreshToken(payload)\<close> take it from the module constants
  \<open>JWT_EXPIRES_IN\<close> and \<open>JWT_REFRESH_EXPIRES_IN\<close> (the environment variable, or
  24h and 7d). With a configured span of 0 the token is rejected at the moment it is
  issued; with a configured span of one hour it is rejected two hours later.
\<close>

theorem expiry_from_configuration:
  "(ms (JWT_EXPIRES_IN e) = Some m \<longrightarrow>
      issue_then_verify (generateAccessToken ms) e t0 t1 payload =
        Some (if t0 + \<lfloor>m / 1000\<rfloor> \<le> t1 then Inl ''Invalid or expired token''
              else Inr (stamp payload t0 (t0 + \<lfloor>m / 1000\<rfloor>))))
   \<and> (ms (JWT_REFRESH_EXPIRES_IN e) = Some m' \<longrightarrow>
      issue_then_verify (generateRefreshToken ms) e t0 t1 payload =
        Some (if t0 + \<lfloor>m' / 1000\<rfloor> \<le> t1 then Inl ''Invalid or expired token''
              else Inr (stamp payload t0 (t0 + \<lfloor>m' / 1000\<rfloor>))))
   \<and> issue_then_verify (\<lambda>e now p. generateAccessToken_call ms e now p further) e t0 t1 payload =
       issue_then_verify (generateAccessToken ms) e t0 t1 payload"
  by (simp add: issue_then_verify_def generateAccessToken_def generateRefreshToken_def
      generateAccessToken_call_def jwt_sign_def verifyToken_def jwt_verify_def signed_def
      stamp_def)

theorem expiry_from_configuration_witness:
  "ms_table (JWT_EXPIRES_IN [''JWT_EXPIRES_IN'' \<mapsto> ''0'']) = Some 0
   \<and> issue_then_verify (generateAccessToken ms_table) [''JWT_EXPIRES_IN'' \<mapsto> ''0''] 5 5 alice =
       Some (Inl ''Invalid or expired token'')
   \<and> ms_table (JWT_EXPIRES_IN [''JWT_EXPIRES_IN'' \<mapsto> ''1h'']) = Some 3600000
   \<and> issue_then_verify (generateAccessToken ms_table) [''JWT_EXPIRES_IN'' \<mapsto> ''1h''] 0 7200 alice =
       Some (Inl ''Invalid or expired token'')
   \<and> ms_table (JWT_REFRESH_EXPIRES_IN [''JWT_REFRESH_EXPIRES_IN'' \<mapsto> ''1h'']) = Some 3600000
   \<and> issue_then_verify (generateRefreshToken ms_table) [''JWT_REFRESH_EXPIRES_IN'' \<mapsto> ''1h'']
       0 7200 alice = Some (Inl ''Invalid or expired token'')"
proof -
  have a: "JWT_EXPIRES_IN [''JWT_EXPIRES_IN'' \<mapsto> ''0''] = ''0''"
    "JWT_EXPIRES_IN [''JWT_EXPIRES_IN'' \<mapsto> ''1h''] = ''1h''"
    "JWT_REFRESH_EXPIRES_IN [''JWT_REFRESH_EXPIRES_IN'' \<mapsto> ''1h''] = ''1h''"
    by (simp_all add: JWT_EXPIRES_IN_def JWT_REFRESH_EXPIRES_IN_def env_or_def)
  have b: "ms_table ''0'' = Some 0" "ms_table ''1h'' = Some 3600000"
    by (simp_all add: ms_table_def)
  show ?thesis
    using expiry_from_configuration
        [where ms = ms_table and e = "[''JWT_EXPIRES_IN'' \<mapsto> ''0'']" and m = 0
           and ?t0.0 = 5 and ?t1.0 = 5 and payload = alice]
      expiry_from_configuration
        [where ms = ms_table and e = "[''JWT_EXPIRES_IN'' \<mapsto> ''1h'']" and m = 3600000
           and ?t0.0 = 0 and ?t1.0 = 7200 and payload = alice]
      expiry_from_configuration
        [where ms = ms_table and e = "[''JWT_REFRESH_EXPIRES_IN'' \<mapsto> ''1h'']"
           and m' = 3600000 and ?t0.0 = 0 and ?t1.0 = 7200 and payload = alice]
    by (simp add: a b)
qed

text \<open>
  Claim C6 as stated fails: the time span is not an argument of the issuing function.
  A call \<open>generateAccessToken(claims, 0)\<close>, made with no \<open>JWT_EXPIRES_IN\<close> in the
  environment, issues a token that is valid for 24 hours, and \<open>verifyToken\<close>
  accepts it at the moment it is issued.
\<close>

theorem default_token_accepted_at_once:
  "issue_then_verify (\<lambda>e now p. generateAccessToken_call ms_table e now p [JNum (Fin 0)])
     Map.empty 0 0 alice =
   Some (Inr (stamp alice 0 86400))"
  by (simp add: issue_then_verify_def generateAccessToken_call_def generateAccessToken_def
      jwt_sign_def verifyToken_def jwt_verify_def JWT_SECRET_def JWT_EXPIRES_IN_def env_or_def
      ms_table_def signed_def stamp_def)

text \<open>
  Claim C7. \<open>optionalAuthForReports\<close> passes every request on with the fixed identity
  (userId 1, username "system", role "admin") as \<open>req.user\<close>, whatever the
  Authorization header is; it never responds itself.
\<close>

theorem optionalAuthForReports_fixed_identity:
  "optionalAuthForReports req = Next (req\<lparr>req_user := Some system_user\<rparr>)
   \<and> optionalAuthForReports (req\<lparr>authorization := h\<rparr>) =
       Next (req\<lparr>authorization := h, req_user := Some system_user\<rparr>)
   \<and> chain e now [OptionalAuthForReports] (req\<lparr>authorization := h\<rparr>) =
       Next (req\<lparr>authorization := h, req_user := Some system_user\<rparr>)
   \<and> userId system_user = JNum (Fin 1)
   \<and> username system_user = JStr ''system''
   \<and> role system_user = JStr ''admin''"
proof -
  have always: "optionalAuthForReports r = Next (r\<lparr>req_user := Some system_user\<rparr>)" for r
    by (simp add: optionalAuthForReports_def)
  have route: "chain e now [OptionalAuthForReports] r = optionalAuthForReports r" for r
    by (simp add: optionalAuthForReports_def)
  have identity: "userId system_user = JNum (Fin 1)" "username system_user = JStr ''system''"
    "role system_user = JStr ''admin''"
    by (simp_all add: system_user_def)
  show ?thesis
    using always [of req] always [of "req\<lparr>authorization := h\<rparr>"]
      route [of "req\<lparr>authorization := h\<rparr>"] identity
    by simp
qed

text \<open>
  Claim C8, as amended. index.js checks at start-up that the four variables DB_USER,
  DB_PASSWORD, DB_SERVER and DB_NAME are set and not empty, and exits with code 1,
  before any call on the database and without listening, when one of them is not.
  The other settings are not required: an unset PORT gives port 4000, an unset
  JWT_SECRET the secret written in the code, unset expiry durations 24h and 7d, and
  an unset CORS_ORIGIN (which only server.js reads) the origin written in the code.
\<close>

theorem required_environment:
  "(missing_env e requiredEnvVars = None \<longleftrightarrow>
      (\<forall>v \<in> set [''DB_USER'', ''DB_PASSWORD'', ''DB_SERVER'', ''DB_NAME''].
         \<exists>x. e v = Some x \<and> x \<noteq> []))
   \<and> (missing_env e requiredEnvVars \<noteq> None \<longrightarrow> index_js e rs = initial\<lparr>exited := Some 1\<rparr>)
   \<and> (e ''PORT'' = None \<longrightarrow> PORT e = JNum (Fin 4000))
   \<and> (e ''JWT_SECRET'' = None \<longrightarrow>
        JWT_SECRET e = ''your-super-secret-jwt-key-change-this-in-production'')
   \<and> (e ''JWT_EXPIRES_IN'' = None \<longrightarrow> JWT_EXPIRES_IN e = ''24h'')
   \<and> (e ''JWT_REFRESH_EXPIRES_IN'' = None \<longrightarrow> JWT_REFRESH_EXPIRES_IN e = ''7d'')
   \<and> (e ''CORS_ORIGIN'' = None \<longrightarrow> allowedOrigins e = [''http://localhost:5173''])"
proof -
  have 1: "missing_env e requiredEnvVars = None \<longleftrightarrow>
      (\<forall>v \<in> set [''DB_USER'', ''DB_PASSWORD'', ''DB_SERVER'', ''DB_NAME''].
         \<exists>x. e v = Some x \<and> x \<noteq> [])"
    unfolding requiredEnvVars_def by (rule missing_env_iff)
  have 2: "missing_env e requiredEnvVars \<noteq> None \<longrightarrow> index_js e rs = initial\<lparr>exited := Some 1\<rparr>"
    by (auto simp: index_js_def)
  have 3: "e ''PORT'' = None \<longrightarrow> PORT e = JNum (Fin 4000)"
    by (simp add: PORT_def)
  have 4: "e ''JWT_SECRET'' = None \<longrightarrow>
        JWT_SECRET e = ''your-super-secret-jwt-key-change-this-in-production''"
    by (simp add: JWT_SECRET_def env_or_def)
  have 5: "e ''JWT_EXPIRES_IN'' = None \<longrightarrow> JWT_EXPIRES_IN e = ''24h''"
    by (simp add: JWT_EXPIRES_IN_def env_or_def)
  have 6: "e ''JWT_REFRESH_EXPIRES_IN'' = None \<longrightarrow> JWT_REFRESH_EXPIRES_IN e = ''7d''"
    by (simp add: JWT_REFRESH_EXPIRES_IN_def env_or_def)
  have 7: "e ''CORS_ORIGIN'' = None \<longrightarrow> allowedOrigins e = [''http://localhost:5173'']"
    by (simp add: allowedOrigins_def)
  show ?thesis
    by (rule conjI [OF 1 conjI [OF 2 conjI [OF 3 conjI [OF 4 conjI [OF 5 conjI [OF 6 7]]]]]])
qed

theorem required_environment_witness:
  "missing_env (db_env(''DB_NAME'' := None)) requiredEnvVars \<noteq> None
   \<and> index_js (db_env(''DB_NAME'' := None)) [ConnReply (Inr 1), QueryReply (Inr (Some []))] =
       initial\<lparr>exited := Some 1\<rparr>
   \<and> missing_env db_env requiredEnvVars = None
   \<and> db_env ''PORT'' = None \<and> PORT db_env = JNum (Fin 4000)
   \<and> db_env ''JWT_SECRET'' = None
   \<and> JWT_SECRET db_env = ''your-super-secret-jwt-key-change-this-in-production''
   \<and> db_env ''JWT_EXPIRES_IN'' = None \<and> JWT_EXPIRES_IN db_env = ''24h''
   \<and> db_env ''JWT_REFRESH_EXPIRES_IN'' = None \<and> JWT_REFRESH_EXPIRES_IN db_env = ''7d''
   \<and> db_env ''CORS_ORIGIN'' = None \<and> allowedOrigins db_env = [''http://localhost:5173'']"
proof -
  have m: "missing_env (db_env(''DB_NAME'' := None)) requiredEnvVars \<noteq> None"
    by (simp add: db_env_def requiredEnvVars_def)
  show ?thesis
    using required_environment
        [of "db_env(''DB_NAME'' := None)" "[ConnReply (Inr 1), QueryReply (Inr (Some []))]"]
      required_environment [of db_env "[]"] m db_env_complete db_env_unset
    by simp
qed

text \<open>
  Claim C8 as stated fails: with the four database variables set and neither PORT nor
  JWT_SECRET nor the expiry durations in the environment, index.js does not exit; it
  connects and listens on port 4000.
\<close>

theorem defaults_without_failure:
  "db_env ''PORT'' = None \<and> db_env ''JWT_SECRET'' = None \<and> db_env ''JWT_EXPIRES_IN'' = None
   \<and> db_env ''JWT_REFRESH_EXPIRES_IN'' = None
   \<and> index_js db_env [ConnReply (Inr 1), QueryReply (Inr (Some []))] =
       initial\<lparr>globalPool := Some 1, handlers := [1], calls := [SqlConnect, probe 1],
               listening := Some (JNum (Fin 4000))\<rparr>"
proof -
  have b: "PORT db_env = JNum (Fin 4000)"
    using db_env_unset by (simp add: PORT_def)
  show ?thesis
    using db_env_unset b db_env_complete
    by (simp add: index_js_def startServer_def startServer_start_def
      startServer_resume_simps initializeDatabase_start_def initial_def)
qed

text \<open>
  Claim C9. A token that \<open>generateAccessToken\<close> issued is accepted by
  \<open>refreshAccessToken\<close> as long as it has not expired: the answer is the successful
  refresh, with a new access token issued at that moment for the same userId,
  username and role. The same holds through the route \<open>POST /api/auth/refresh\<close>, and
  a token that \<open>generateRefreshToken\<close> issued gets the very same answer: nothing in a
  token tells the two kinds apart.
\<close>

theorem refresh_accepts_access_token:
  assumes "ms (JWT_EXPIRES_IN e) = Some m" and "t1 < t0 + \<lfloor>m / 1000\<rfloor>"
  shows "generateAccessToken ms e t0 payload =
           Inr (signed (JWT_SECRET e) (stamp payload t0 (t0 + \<lfloor>m / 1000\<rfloor>)))
     \<and> refreshAccessToken ms e t1
         (req\<lparr>refreshToken := Some (signed (JWT_SECRET e) (stamp payload t0 (t0 + \<lfloor>m / 1000\<rfloor>)))\<rparr>) =
         Refreshed (signed (JWT_SECRET e) (stamp payload t1 (t1 + \<lfloor>m / 1000\<rfloor>))) payload
     \<and> auth_refresh ms e t1
         (req\<lparr>cookie_refreshToken := None,
              refreshToken := Some (signed (JWT_SECRET e) (stamp payload t0 (t0 + \<lfloor>m / 1000\<rfloor>)))\<rparr>) =
         Refreshed (signed (JWT_SECRET e) (stamp payload t1 (t1 + \<lfloor>m / 1000\<rfloor>))) payload
     \<and> (ms (JWT_REFRESH_EXPIRES_IN e) = Some m' \<and> t1 < t0 + \<lfloor>m' / 1000\<rfloor> \<longrightarrow>
          generateRefreshToken ms e t0 payload =
            Inr (signed (JWT_SECRET e) (stamp payload t0 (t0 + \<lfloor>m' / 1000\<rfloor>)))
          \<and> refreshAccessToken ms e t1
              (req\<lparr>refreshToken :=
                     Some (signed (JWT_SECRET e) (stamp payload t0 (t0 + \<lfloor>m' / 1000\<rfloor>)))\<rparr>) =
              Refreshed (signed (JWT_SECRET e) (stamp payload t1 (t1 + \<lfloor>m / 1000\<rfloor>))) payload)"
  using assms
  by (simp add: generateAccessToken_def generateRefreshToken_def jwt_sign_def
      refreshAccessToken_def auth_refresh_def verifyToken_def jwt_verify_def signed_def stamp_def)

theorem refresh_accepts_access_token_witness:
  "ms_table (JWT_EXPIRES_IN Map.empty) = Some 86400000
   \<and> (100::int) < 0 + \<lfloor>(86400000::rat) / 1000\<rfloor>
   \<and> generateAccessToken ms_table Map.empty 0 alice =
       Inr (signed (JWT_SECRET Map.empty) (stamp alice 0 86400))
   \<and> refreshAccessToken ms_table Map.empty 100
       (anonymous\<lparr>refreshToken := Some (signed (JWT_SECRET Map.empty) (stamp alice 0 86400))\<rparr>) =
       Refreshed (signed (JWT_SECRET Map.empty) (stamp alice 100 86500)) alice
   \<and> ms_table (JWT_REFRESH_EXPIRES_IN Map.empty) = Some 604800000
   \<and> (100::int) < 0 + \<lfloor>(604800000::rat) / 1000\<rfloor>
   \<and> generateRefreshToken ms_table Map.empty 0 alice =
       Inr (signed (JWT_SECRET Map.empty) (stamp alice 0 604800))
   \<and> refreshAccessToken ms_table Map.empty 100
       (anonymous\<lparr>refreshToken := Some (signed (JWT_SECRET Map.empty) (stamp alice 0 604800))\<rparr>) =
       Refreshed (signed (JWT_SECRET Map.empty) (stamp alice 100 86500)) alice"
proof -
  have a: "ms_table (JWT_EXPIRES_IN Map.empty) = Some 86400000"
    "ms_table (JWT_REFRESH_EXPIRES_IN Map.empty) = Some 604800000"
    by (simp_all add: JWT_EXPIRES_IN_def JWT_REFRESH_EXPIRES_IN_def env_or_def ms_table_def)
  have b: "(100::int) < 0 + \<lfloor>(86400000::rat) / 1000\<rfloor>"
    "(100::int) < 0 + \<lfloor>(604800000::rat) / 1000\<rfloor>"
    by simp_all
  show ?thesis
    using refresh_accepts_access_token
        [where ms = ms_table and e = Map.empty and m = 86400000 and ?t0.0 = 0 and ?t1.0 = 100
           and payload = alice and req = anonymous and m' = 604800000] a b
    by simp
qed

text \<open>
  Claim C10. The route \<open>GET /api/test/user/:username\<close> is registered without
  middleware, so a request without any credential reaches the handler. When the
  database is reachable and the query for the user name returns a row, the answer is
  200 with the length of the stored password and whether the stored password equals
  "2255".
\<close>

theorem test_user_password_data:
  "map_of (routes e) (''GET'', ''/api/test/user/:username'') = Some []
   \<and> (globalPool s = Some p \<longrightarrow>
        get_test_user e now req name s
          (QueryReply (Inr x) # QueryReply (Inr (Some (u # others))) # rs) =
        (Returned (Reply 200 (user_found u)),
         s\<lparr>calls := calls s @ [probe p, test_user_query name p]\<rparr>, rs))
   \<and> (globalPool s = None \<longrightarrow>
        get_test_user e now req name s
          (ConnReply (Inr p) # QueryReply (Inr x) # QueryReply (Inr (Some (u # others))) # rs) =
        (Returned (Reply 200 (user_found u)),
         s\<lparr>globalPool := Some p, handlers := handlers s @ [p],
           calls := calls s @ [SqlConnect, probe p, test_user_query name p]\<rparr>, rs))
   \<and> (column u ''User_Password'' = JStr pw \<longrightarrow>
        user_found u =
          JObj [(''success'', JBool True), (''message'', JStr ''User found''),
                (''data'', JObj [(''username'', column u ''User_Name''),
                                 (''userId'', column u ''User_ID''),
                                 (''active'', column u ''Active''),
                                 (''role'', column u ''Role''),
                                 (''passwordLength'', JNum (Fin (of_nat (length pw)))),
                                 (''passwordMatch'', JBool (pw = ''2255''))])])"
proof -
  have 1: "globalPool s = Some p \<longrightarrow>
        get_test_user e now req name s
          (QueryReply (Inr x) # QueryReply (Inr (Some (u # others))) # rs) =
        (Returned (Reply 200 (user_found u)),
         s\<lparr>calls := calls s @ [probe p, test_user_query name p]\<rparr>, rs)"
    by (simp add: get_test_user_def test_user_route test_user_def test_user_start_def
        getDbConnection_start_def)
  have 2: "globalPool s = None \<longrightarrow>
        get_test_user e now req name s
          (ConnReply (Inr p) # QueryReply (Inr x) # QueryReply (Inr (Some (u # others))) # rs) =
        (Returned (Reply 200 (user_found u)),
         s\<lparr>globalPool := Some p, handlers := handlers s @ [p],
           calls := calls s @ [SqlConnect, probe p, test_user_query name p]\<rparr>, rs)"
    by (simp add: get_test_user_def test_user_route test_user_def test_user_start_def
        getDbConnection_start_def initializeDatabase_start_def)
  have 3: "column u ''User_Password'' = JStr pw \<longrightarrow>
        user_found u =
          JObj [(''success'', JBool True), (''message'', JStr ''User found''),
                (''data'', JObj [(''username'', column u ''User_Name''),
                                 (''userId'', column u ''User_ID''),
                                 (''active'', column u ''Active''),
                                 (''role'', column u ''Role''),
                                 (''passwordLength'', JNum (Fin (of_nat (length pw)))),
                                 (''passwordMatch'', JBool (pw = ''2255''))])]"
    using password_data [of u pw] by (simp add: user_found_def)
  show ?thesis by (rule conjI [OF test_user_route conjI [OF 1 conjI [OF 2 3]]])
qed

theorem test_user_password_data_witness:
  "globalPool live = Some 1
   \<and> column alice_row ''User_Password'' = JStr ''2255''
   \<and> get_test_user Map.empty 0 anonymous ''alice'' live
       [QueryReply (Inr (Some [])), QueryReply (Inr (Some [alice_row]))] =
     (Returned (Reply 200
        (JObj [(''success'', JBool True), (''message'', JStr ''User found''),
               (''data'', JObj [(''username'', JStr ''alice''), (''userId'', JNum (Fin 7)),
                                (''active'', JBool True), (''role'', JStr ''admin''),
                                (''passwordLength'', JNum (Fin 4)),
                                (''passwordMatch'', JBool True)])])),
      live\<lparr>calls := [probe 1, test_user_query ''alice'' 1]\<rparr>, [])
   \<and> globalPool initial = None
   \<and> get_test_user Map.empty 0 anonymous ''alice'' initial
       [ConnReply (Inr 1), QueryReply (Inr (Some [])), QueryReply (Inr (Some [alice_row]))] =
     (Returned (Reply 200 (user_found alice_row)),
      initial\<lparr>globalPool := Some 1, handlers := [1],
              calls := [SqlConnect, probe 1, test_user_query ''alice'' 1]\<rparr>, [])"
proof -
  have f: "column alice_row ''User_Password'' = JStr ''2255''"
    "column alice_row ''User_Name'' = JStr ''alice''" "column alice_row ''User_ID'' = JNum (Fin 7)"
    "column alice_row ''Active'' = JBool True" "column alice_row ''Role'' = JStr ''admin''"
    by (simp_all add: column_def alice_row_def)
  have g: "globalPool live = Some 1" "calls live = []" "globalPool initial = None"
    "calls initial = []" "handlers initial = []"
    by (simp_all add: live_def initial_def)
  show ?thesis
    using test_user_password_data
        [where e = Map.empty and s = live and p = 1 and now = 0 and req = anonymous
           and name = "''alice''" and x = "Some []" and u = alice_row and others = "[]"
           and rs = "[]" and pw = "''2255''"]
      test_user_password_data
        [where e = Map.empty and s = initial and p = 1 and now = 0 and req = anonymous
           and name = "''alice''" and x = "Some []" and u = alice_row and others = "[]"
           and rs = "[]" and pw = "''2255''"] f g
    by simp
qed

end
